theory Spec2Isabelle
  imports Complex_Main
begin

section \<open>The training and evaluation loop of ConvNetsPyTorch.ipynb\<close>

text \<open>
  The notebook defines one function with procedural content, \<^verbatim>\<open>train(model, train_loader,
  test_loader, epochs=5)\<close>. Everything it calls belongs to the tensor framework, so the
  framework enters the embedding as a record of functions, one per call the loop makes.
  A call that can raise returns a sum (\<open>Inl\<close> the exception); a call whose result the loop
  tests with \<^verbatim>\<open>is None\<close> returns an option inside that sum.

  Python floats are modelled as \<open>real\<close>: rounding, infinities and NaN are not represented.
  Only exceptions derived from Python's \<^verbatim>\<open>Exception\<close> are represented, which are the ones
  the handler of \<^verbatim>\<open>train\<close> catches. The device transfer (\<^verbatim>\<open>.to(device)\<close>) is the identity.
\<close>

subsection \<open>Data\<close>

datatype exn = ZeroDivisionError | KeyError string | Raised string

text \<open>
  What \<^verbatim>\<open>print\<close> writes: the four warnings (with their text), the progress line of an epoch
  (\<^verbatim>\<open>epoch+1\<close>, \<^verbatim>\<open>epochs\<close> and the four metrics, before formatting) and the line of the
  exception handler.
\<close>

datatype line =
    Warning string
  | Progress nat int real real real real
  | ErrorLine exn

text \<open>The model object: its learnable parameters and the mode flag set by
  \<^verbatim>\<open>model.train()\<close> and \<^verbatim>\<open>model.eval()\<close>.\<close>

record 'p model =
  params :: 'p
  training :: bool

text \<open>
  The framework calls of the loop, for parameters \<open>'p\<close>, optimizer state \<open>'q\<close>, batches
  \<open>'b\<close> (a pair of data and target in the source) and model outputs \<open>'o\<close>:
  \<^item> \<open>forward\<close> is \<^verbatim>\<open>model(data)\<close>, which reads the parameters and the mode;
  \<^item> \<open>criterion\<close> is \<^verbatim>\<open>criterion(output, target)\<close> followed by \<^verbatim>\<open>loss.item()\<close>;
  \<^item> \<open>adam\<close> is \<^verbatim>\<open>optim.Adam(model.parameters(), lr=0.001)\<close>;
  \<^item> \<open>backward_step\<close> is \<^verbatim>\<open>loss.backward(); optimizer.step()\<close> on the gradients that
    \<^verbatim>\<open>optimizer.zero_grad()\<close> cleared at the start of the batch;
  \<^item> \<open>ncorrect\<close> is \<^verbatim>\<open>(predicted == target).sum().item()\<close> with
    \<^verbatim>\<open>predicted = torch.max(output.data, 1)[1]\<close>;
  \<^item> \<open>nexamples\<close> is \<^verbatim>\<open>target.size(0)\<close>.
\<close>

record ('p, 'q, 'b, 'o) framework =
  forward :: "'p \<Rightarrow> bool \<Rightarrow> 'b \<Rightarrow> exn + 'o option"
  criterion :: "'o \<Rightarrow> 'b \<Rightarrow> exn + real option"
  adam :: "'p \<Rightarrow> 'q"
  backward_step :: "'p \<Rightarrow> 'q \<Rightarrow> 'b \<Rightarrow> exn + ('p \<times> 'q)"
  ncorrect :: "'o \<Rightarrow> 'b \<Rightarrow> nat"
  nexamples :: "'b \<Rightarrow> nat"

text \<open>A data loader: \<^verbatim>\<open>len(loader.dataset)\<close> and the batches one iteration yields.\<close>

record 'b loader =
  dataset_len :: nat
  batches :: "'b list"

text \<open>The \<^verbatim>\<open>history\<close> dictionary, from key to the list stored under it.\<close>

type_synonym history = "string \<rightharpoonup> real list"

definition init_history :: history where
  "init_history =
     [''train_loss'' \<mapsto> [], ''train_acc'' \<mapsto> [], ''test_loss'' \<mapsto> [],
      ''test_acc'' \<mapsto> [], ''val_acc'' \<mapsto> [], ''val_loss'' \<mapsto> []]"

text \<open>\<^verbatim>\<open>history[k].append(v)\<close>: the subscript raises on a missing key.\<close>

definition hist_append :: "string \<Rightarrow> real \<Rightarrow> history \<Rightarrow> exn + history" where
  "hist_append k v h =
     (case h k of None \<Rightarrow> Inl (KeyError k) | Some xs \<Rightarrow> Inr (h(k \<mapsto> xs @ [v])))"

text \<open>Python's true division of a float by an integer.\<close>

definition py_div :: "real \<Rightarrow> nat \<Rightarrow> exn + real" where
  "py_div x d = (if d = 0 then Inl ZeroDivisionError else Inr (x / real d))"

text \<open>\<^verbatim>\<open>range(epochs)\<close>, empty for a negative argument.\<close>

definition py_range :: "int \<Rightarrow> nat list" where
  "py_range n = [0..<nat n]"

subsection \<open>The loops\<close>

text \<open>
  Every part of the loop returns the lines it printed, the state it leaves behind (also
  when it raises: a mutation is not undone by an exception) and either the exception or
  its value.
\<close>

definition printed :: "line \<Rightarrow> line list \<times> 's \<times> 'r \<Rightarrow> line list \<times> 's \<times> 'r" where
  "printed l out = (case out of (lg, st, r) \<Rightarrow> (l # lg, st, r))"

text \<open>
  The inner loop of the training phase, over the batches that remain, with the running
  \<^verbatim>\<open>train_loss\<close>, \<^verbatim>\<open>train_correct\<close> and \<^verbatim>\<open>train_total\<close>. A \<^verbatim>\<open>continue\<close> goes to the next
  batch with nothing changed.
\<close>

fun train_batches ::
  "('p, 'q, 'b, 'o) framework \<Rightarrow> 'p model \<times> 'q \<Rightarrow> real \<times> nat \<times> nat \<Rightarrow> 'b list \<Rightarrow>
     line list \<times> ('p model \<times> 'q) \<times> (exn + real \<times> nat \<times> nat)" where
  "train_batches fw st acc [] = ([], st, Inr acc)"
| "train_batches fw (m, q) (train_loss, train_correct, train_total) (b # bs) =
     (case forward fw (params m) (training m) b of
        Inl e \<Rightarrow> ([], (m, q), Inl e)
      | Inr None \<Rightarrow>
          printed (Warning ''Warning: Model output is None.'')
            (train_batches fw (m, q) (train_loss, train_correct, train_total) bs)
      | Inr (Some output) \<Rightarrow>
          (case criterion fw output b of
             Inl e \<Rightarrow> ([], (m, q), Inl e)
           | Inr None \<Rightarrow>
               printed (Warning ''Warning: Loss computation returned None.'')
                 (train_batches fw (m, q) (train_loss, train_correct, train_total) bs)
           | Inr (Some loss) \<Rightarrow>
               (case backward_step fw (params m) q b of
                  Inl e \<Rightarrow> ([], (m, q), Inl e)
                | Inr (p', q') \<Rightarrow>
                    train_batches fw (m\<lparr>params := p'\<rparr>, q')
                      (train_loss + loss, train_correct + ncorrect fw output b,
                       train_total + nexamples fw b) bs)))"

text \<open>The inner loop of the evaluation phase, under \<^verbatim>\<open>torch.no_grad()\<close>: no optimizer
  is involved.\<close>

fun eval_batches ::
  "('p, 'q, 'b, 'o) framework \<Rightarrow> 'p model \<Rightarrow> real \<times> nat \<times> nat \<Rightarrow> 'b list \<Rightarrow>
     line list \<times> 'p model \<times> (exn + real \<times> nat \<times> nat)" where
  "eval_batches fw m acc [] = ([], m, Inr acc)"
| "eval_batches fw m (test_loss, test_correct, test_total) (b # bs) =
     (case forward fw (params m) (training m) b of
        Inl e \<Rightarrow> ([], m, Inl e)
      | Inr None \<Rightarrow>
          printed (Warning ''Warning: Model output is None during evaluation.'')
            (eval_batches fw m (test_loss, test_correct, test_total) bs)
      | Inr (Some output) \<Rightarrow>
          (case criterion fw output b of
             Inl e \<Rightarrow> ([], m, Inl e)
           | Inr None \<Rightarrow>
               printed (Warning ''Warning: Loss computation returned None during evaluation.'')
                 (eval_batches fw m (test_loss, test_correct, test_total) bs)
           | Inr (Some loss) \<Rightarrow>
               eval_batches fw m
                 (test_loss + loss, test_correct + ncorrect fw output b,
                  test_total + nexamples fw b) bs))"

text \<open>The two derived metrics of a phase: \<^verbatim>\<open>loss /= len(loader.dataset)\<close> and then
  \<^verbatim>\<open>acc = 100. * correct / total\<close>.\<close>

definition metrics :: "nat \<Rightarrow> real \<times> nat \<times> nat \<Rightarrow> exn + real \<times> real" where
  "metrics n acc =
     (case acc of (loss_sum, n_correct, n_total) \<Rightarrow>
        (case py_div loss_sum n of
           Inl e \<Rightarrow> Inl e
         | Inr loss \<Rightarrow>
             (case py_div (100 * real n_correct) n_total of
                Inl e \<Rightarrow> Inl e
              | Inr accuracy \<Rightarrow> Inr (loss, accuracy))))"

text \<open>The training phase of one epoch: \<^verbatim>\<open>model.train()\<close>, the loop, the metrics.\<close>

definition train_phase ::
  "('p, 'q, 'b, 'o) framework \<Rightarrow> 'b loader \<Rightarrow> 'p model \<times> 'q \<Rightarrow>
     line list \<times> ('p model \<times> 'q) \<times> (exn + real \<times> real)" where
  "train_phase fw train_loader st =
     (case st of (m, q) \<Rightarrow>
        (case train_batches fw (m\<lparr>training := True\<rparr>, q) (0, 0, 0) (batches train_loader) of
           (lg, st', Inl e) \<Rightarrow> (lg, st', Inl e)
         | (lg, st', Inr acc) \<Rightarrow> (lg, st', metrics (dataset_len train_loader) acc)))"

text \<open>The evaluation phase of one epoch: \<^verbatim>\<open>model.eval()\<close>, the loop, the metrics.\<close>

definition eval_phase ::
  "('p, 'q, 'b, 'o) framework \<Rightarrow> 'b loader \<Rightarrow> 'p model \<Rightarrow>
     line list \<times> 'p model \<times> (exn + real \<times> real)" where
  "eval_phase fw test_loader m =
     (case eval_batches fw (m\<lparr>training := False\<rparr>) (0, 0, 0) (batches test_loader) of
        (lg, m', Inl e) \<Rightarrow> (lg, m', Inl e)
      | (lg, m', Inr acc) \<Rightarrow> (lg, m', metrics (dataset_len test_loader) acc))"

text \<open>The two \<^verbatim>\<open>append\<close> calls that follow a phase.\<close>

definition record_metrics ::
  "string \<Rightarrow> string \<Rightarrow> real \<times> real \<Rightarrow> history \<Rightarrow> exn + history" where
  "record_metrics loss_key acc_key lm h =
     (case hist_append loss_key (fst lm) h of
        Inl e \<Rightarrow> Inl e
      | Inr h' \<Rightarrow> hist_append acc_key (snd lm) h')"

text \<open>The body of the outer loop for one value of \<^verbatim>\<open>epoch\<close>. The history of an epoch
  that raises is dropped with the exception: \<^verbatim>\<open>train\<close> never hands it out.\<close>

definition epoch_body ::
  "('p, 'q, 'b, 'o) framework \<Rightarrow> 'b loader \<Rightarrow> 'b loader \<Rightarrow> int \<Rightarrow> 'p model \<times> 'q \<Rightarrow>
     history \<Rightarrow> nat \<Rightarrow> line list \<times> ('p model \<times> 'q) \<times> (exn + history)" where
  "epoch_body fw train_loader test_loader epochs st h epoch =
     (case train_phase fw train_loader st of
        (lg1, st1, Inl e) \<Rightarrow> (lg1, st1, Inl e)
      | (lg1, (m1, q1), Inr tr) \<Rightarrow>
          (case record_metrics ''train_loss'' ''train_acc'' tr h of
             Inl e \<Rightarrow> (lg1, (m1, q1), Inl e)
           | Inr h1 \<Rightarrow>
               (case eval_phase fw test_loader m1 of
                  (lg2, m2, Inl e) \<Rightarrow> (lg1 @ lg2, (m2, q1), Inl e)
                | (lg2, m2, Inr te) \<Rightarrow>
                    (case record_metrics ''test_loss'' ''test_acc'' te h1 of
                       Inl e \<Rightarrow> (lg1 @ lg2, (m2, q1), Inl e)
                     | Inr h2 \<Rightarrow>
                         (lg1 @ lg2 @
                            [Progress (epoch + 1) epochs (fst tr) (snd tr) (fst te) (snd te)],
                          (m2, q1), Inr h2)))))"

text \<open>The outer loop over the values of \<^verbatim>\<open>epoch\<close> that remain.\<close>

fun epochs_loop ::
  "('p, 'q, 'b, 'o) framework \<Rightarrow> 'b loader \<Rightarrow> 'b loader \<Rightarrow> int \<Rightarrow> 'p model \<times> 'q \<Rightarrow>
     history \<Rightarrow> nat list \<Rightarrow> line list \<times> ('p model \<times> 'q) \<times> (exn + history)" where
  "epochs_loop fw train_loader test_loader epochs st h [] = ([], st, Inr h)"
| "epochs_loop fw train_loader test_loader epochs st h (epoch # rest) =
     (case epoch_body fw train_loader test_loader epochs st h epoch of
        (lg, st', Inl e) \<Rightarrow> (lg, st', Inl e)
      | (lg, st', Inr h') \<Rightarrow>
          (case epochs_loop fw train_loader test_loader epochs st' h' rest of
             (lg', st'', r) \<Rightarrow> (lg @ lg', st'', r)))"

text \<open>
  \<^verbatim>\<open>train\<close>: a fresh optimizer and history, the outer loop inside \<^verbatim>\<open>try\<close>, and the
  handler that prints one line and returns \<^verbatim>\<open>None\<close>. The result is what was printed, the
  model as the call leaves it, and the returned value.
\<close>

definition train ::
  "('p, 'q, 'b, 'o) framework \<Rightarrow> 'p model \<Rightarrow> 'b loader \<Rightarrow> 'b loader \<Rightarrow> int \<Rightarrow>
     line list \<times> 'p model \<times> history option" where
  "train fw m train_loader test_loader epochs =
     (case epochs_loop fw train_loader test_loader epochs (m, adam fw (params m))
             init_history (py_range epochs) of
        (lg, (m', q'), Inl e) \<Rightarrow> (lg @ [ErrorLine e], m', None)
      | (lg, (m', q'), Inr h) \<Rightarrow> (lg, m', Some h))"

subsection \<open>Notions used to state the properties\<close>


text \<open>
  A batch is anomalous for a model when the two \<^verbatim>\<open>is None\<close> tests of the loop body send it
  to \<^verbatim>\<open>continue\<close>: the forward pass returns \<^verbatim>\<open>None\<close>, or it returns an output on which the
  criterion returns \<^verbatim>\<open>None\<close>. The warning printed then depends on the phase and on which
  of the two tests fired.
\<close>

definition anomalous :: "('p, 'q, 'b, 'o) framework \<Rightarrow> 'p model \<Rightarrow> 'b \<Rightarrow> bool" where
  "anomalous fw m b =
     (case forward fw (params m) (training m) b of
        Inl e \<Rightarrow> False
      | Inr None \<Rightarrow> True
      | Inr (Some output) \<Rightarrow>
          (case criterion fw output b of
             Inl e \<Rightarrow> False
           | Inr None \<Rightarrow> True
           | Inr (Some loss) \<Rightarrow> False))"

definition train_warning :: "('p, 'q, 'b, 'o) framework \<Rightarrow> 'p model \<Rightarrow> 'b \<Rightarrow> line" where
  "train_warning fw m b =
     (if forward fw (params m) (training m) b = Inr None
      then Warning ''Warning: Model output is None.''
      else Warning ''Warning: Loss computation returned None.'')"

definition eval_warning :: "('p, 'q, 'b, 'o) framework \<Rightarrow> 'p model \<Rightarrow> 'b \<Rightarrow> line" where
  "eval_warning fw m b =
     (if forward fw (params m) (training m) b = Inr None
      then Warning ''Warning: Model output is None during evaluation.''
      else Warning ''Warning: Loss computation returned None during evaluation.'')"



text \<open>
  The contributions of a phase, as the specification speaks of them: one triple (loss,
  correct predictions, examples) for each batch that is neither skipped nor raises, in
  order. In the training phase the parameters move from batch to batch; in the evaluation
  phase every batch meets the same model.
\<close>

fun train_contribs ::
  "('p, 'q, 'b, 'o) framework \<Rightarrow> 'p model \<times> 'q \<Rightarrow> 'b list \<Rightarrow> (real \<times> nat \<times> nat) list" where
  "train_contribs fw st [] = []"
| "train_contribs fw (m, q) (b # bs) =
     (case forward fw (params m) (training m) b of
        Inl e \<Rightarrow> []
      | Inr None \<Rightarrow> train_contribs fw (m, q) bs
      | Inr (Some output) \<Rightarrow>
          (case criterion fw output b of
             Inl e \<Rightarrow> []
           | Inr None \<Rightarrow> train_contribs fw (m, q) bs
           | Inr (Some loss) \<Rightarrow>
               (case backward_step fw (params m) q b of
                  Inl e \<Rightarrow> []
                | Inr (p', q') \<Rightarrow>
                    (loss, ncorrect fw output b, nexamples fw b)
                      # train_contribs fw (m\<lparr>params := p'\<rparr>, q') bs)))"

definition eval_contrib ::
  "('p, 'q, 'b, 'o) framework \<Rightarrow> 'p model \<Rightarrow> 'b \<Rightarrow> (real \<times> nat \<times> nat) option" where
  "eval_contrib fw m b =
     (case forward fw (params m) (training m) b of
        Inl e \<Rightarrow> None
      | Inr None \<Rightarrow> None
      | Inr (Some output) \<Rightarrow>
          (case criterion fw output b of
             Inl e \<Rightarrow> None
           | Inr None \<Rightarrow> None
           | Inr (Some loss) \<Rightarrow> Some (loss, ncorrect fw output b, nexamples fw b)))"

definition loss_sum :: "(real \<times> nat \<times> nat) list \<Rightarrow> real" where
  "loss_sum cs = sum_list (map fst cs)"

definition correct_count :: "(real \<times> nat \<times> nat) list \<Rightarrow> nat" where
  "correct_count cs = sum_list (map (\<lambda>c. fst (snd c)) cs)"

definition total_count :: "(real \<times> nat \<times> nat) list \<Rightarrow> nat" where
  "total_count cs = sum_list (map (\<lambda>c. snd (snd c)) cs)"

text \<open>Two invariants of the history across completed epochs.\<close>

definition hist_keys :: "string set" where
  "hist_keys =
     {''train_loss'', ''train_acc'', ''test_loss'', ''test_acc'', ''val_acc'', ''val_loss''}"

definition hist_shape :: "nat \<Rightarrow> history \<Rightarrow> bool" where
  "hist_shape i h \<longleftrightarrow>
     map_option length (h ''train_loss'') = Some i
   \<and> map_option length (h ''train_acc'') = Some i
   \<and> map_option length (h ''test_loss'') = Some i
   \<and> map_option length (h ''test_acc'') = Some i
   \<and> h ''val_acc'' = Some [] \<and> h ''val_loss'' = Some [] \<and> dom h = hist_keys"


subsection \<open>A small framework to run the loop on\<close>

text \<open>
  Parameters and optimizer state are step counters and a batch is a number. Batch 0 makes
  the forward pass return \<^verbatim>\<open>None\<close>, batch 1 makes the criterion return \<^verbatim>\<open>None\<close>, batch 2
  makes the forward pass raise once a step has been taken, and any other batch has two
  examples, one predicted correctly, with loss one half.
\<close>

definition demo_fw :: "(nat, nat, nat, nat) framework" where
  "demo_fw =
     \<lparr>forward = (\<lambda>p tr b. if b = 0 then Inr None
                          else if b = 2 \<and> 1 \<le> p then Inl (Raised ''size mismatch'')
                          else Inr (Some b)),
      criterion = (\<lambda>out b. if b = 1 then Inr None else Inr (Some (1 / 2))),
      adam = (\<lambda>p. 0),
      backward_step = (\<lambda>p q b. Inr (p + 1, q + 1)),
      ncorrect = (\<lambda>out b. 1),
      nexamples = (\<lambda>b. 2)\<rparr>"

definition demo_model :: "nat model" where
  "demo_model = \<lparr>params = 0, training = False\<rparr>"

definition good_loader :: "nat loader" where
  "good_loader = \<lparr>dataset_len = 4, batches = [3, 0, 1, 3]\<rparr>"

definition failing_loader :: "nat loader" where
  "failing_loader = \<lparr>dataset_len = 2, batches = [2]\<rparr>"

definition skipped_loader :: "nat loader" where
  "skipped_loader = \<lparr>dataset_len = 2, batches = [0, 1]\<rparr>"







section \<open>Auxiliary facts\<close>

subsection \<open>Printing and the order of the loops\<close>

lemma printed_simp [simp]: "printed l (lg, st, r) = (l # lg, st, r)"
  by (simp add: printed_def)

lemma printed_eq_iff:
  "printed l out = (lg, st, r) \<longleftrightarrow> (\<exists>lg'. lg = l # lg' \<and> out = (lg', st, r))"
  by (cases out) (auto simp: printed_def)

lemma fst_printed [simp]: "fst (printed l out) = l # fst out"
  by (simp add: printed_def split: prod.splits)

lemma snd_printed [simp]: "snd (printed l out) = snd out"
  by (simp add: printed_def split: prod.splits)

lemma train_batches_append:
  "train_batches fw st acc (xs @ ys) =
     (case train_batches fw st acc xs of
        (lg, st', Inl e) \<Rightarrow> (lg, st', Inl e)
      | (lg, st', Inr acc') \<Rightarrow>
          (case train_batches fw st' acc' ys of (lg', st'', r) \<Rightarrow> (lg @ lg', st'', r)))"
  by (induction fw st acc xs rule: train_batches.induct)
     (auto split: prod.splits sum.splits option.splits)

lemma eval_batches_append:
  "eval_batches fw m acc (xs @ ys) =
     (case eval_batches fw m acc xs of
        (lg, m', Inl e) \<Rightarrow> (lg, m', Inl e)
      | (lg, m', Inr acc') \<Rightarrow>
          (case eval_batches fw m' acc' ys of (lg', m'', r) \<Rightarrow> (lg @ lg', m'', r)))"
  by (induction fw m acc xs rule: eval_batches.induct)
     (auto split: prod.splits sum.splits option.splits)

lemma epochs_loop_append:
  "epochs_loop fw tr te n st h (xs @ ys) =
     (case epochs_loop fw tr te n st h xs of
        (lg, st', Inl e) \<Rightarrow> (lg, st', Inl e)
      | (lg, st', Inr h') \<Rightarrow>
          (case epochs_loop fw tr te n st' h' ys of (lg', st'', r) \<Rightarrow> (lg @ lg', st'', r)))"
  by (induction xs arbitrary: st h) (auto split: prod.splits sum.splits)

lemma upt_split_at: "k < n \<Longrightarrow> [0..<n] = [0..<k] @ k # [Suc k..<n]"
  using upt_add_eq_append [of 0 k "n - k"] upt_conv_Cons [of k n] by simp

subsection \<open>Only the handler prints an error line\<close>







subsection \<open>Skipped batches\<close>

lemma train_batches_skip:
  "anomalous fw m b \<Longrightarrow>
     train_batches fw (m, q) acc (b # bs) =
       printed (train_warning fw m b) (train_batches fw (m, q) acc bs)"
  by (cases acc)
     (auto simp: anomalous_def train_warning_def split: sum.splits option.splits)

lemma eval_batches_skip:
  "anomalous fw m b \<Longrightarrow>
     eval_batches fw m acc (b # bs) =
       printed (eval_warning fw m b) (eval_batches fw m acc bs)"
  by (cases acc)
     (auto simp: anomalous_def eval_warning_def split: sum.splits option.splits)

lemma train_batches_all_skipped:
  "\<forall>b \<in> set bs. anomalous fw m b \<Longrightarrow>
     train_batches fw (m, q) acc bs = (map (train_warning fw m) bs, (m, q), Inr acc)"
  by (induction bs) (simp_all add: train_batches_skip)

lemma metrics_zero: "metrics n (0, 0, 0) = Inl ZeroDivisionError"
  by (simp add: metrics_def py_div_def)

lemma train_phase_all_skipped:
  "\<forall>b \<in> set (batches tr). anomalous fw (m\<lparr>training := True\<rparr>) b \<Longrightarrow>
     train_phase fw tr (m, q) =
       (map (train_warning fw (m\<lparr>training := True\<rparr>)) (batches tr),
        (m\<lparr>training := True\<rparr>, q), Inl ZeroDivisionError)"
  by (simp add: train_phase_def train_batches_all_skipped metrics_zero)

subsection \<open>The evaluation loop returns the model it was given\<close>

lemma eval_batches_model:
  "fst (snd (eval_batches fw m acc bs)) = m"
  by (induction fw m acc bs rule: eval_batches.induct)
     (auto split: prod.splits sum.splits option.splits)

lemma eval_phase_model: "fst (snd (eval_phase fw te m)) = m\<lparr>training := False\<rparr>"
  using eval_batches_model [of fw "m\<lparr>training := False\<rparr>" "(0, 0, 0)" "batches te"]
  by (auto simp: eval_phase_def split: prod.splits sum.splits)

subsection \<open>What a completed epoch does to the history\<close>

lemma record_metrics_ok:
  "h lk = Some xs \<Longrightarrow> h ak = Some ys \<Longrightarrow> lk \<noteq> ak \<Longrightarrow>
     record_metrics lk ak lm h = Inr (h(lk \<mapsto> xs @ [fst lm], ak \<mapsto> ys @ [snd lm]))"
  by (simp add: record_metrics_def hist_append_def)

lemma epoch_body_success:
  assumes "epoch_body fw tr te n st h k = (lg, st', Inr h')"
    and "h ''train_loss'' = Some a" and "h ''train_acc'' = Some b"
    and "h ''test_loss'' = Some c" and "h ''test_acc'' = Some d"
  shows "\<exists>trm tem.
           snd (snd (train_phase fw tr st)) = Inr trm
         \<and> snd (snd (eval_phase fw te (fst (fst (snd (train_phase fw tr st)))))) = Inr tem
         \<and> h' = h(''train_loss'' \<mapsto> a @ [fst trm], ''train_acc'' \<mapsto> b @ [snd trm],
                   ''test_loss'' \<mapsto> c @ [fst tem], ''test_acc'' \<mapsto> d @ [snd tem])"
proof -
  have r1: "\<And>lm. record_metrics ''train_loss'' ''train_acc'' lm h =
      Inr (h(''train_loss'' \<mapsto> a @ [fst lm], ''train_acc'' \<mapsto> b @ [snd lm]))"
    using assms(2,3) by (simp add: record_metrics_ok)
  have r2: "\<And>lm lm'. record_metrics ''test_loss'' ''test_acc'' lm'
        (h(''train_loss'' \<mapsto> a @ [fst lm], ''train_acc'' \<mapsto> b @ [snd lm])) =
      Inr (h(''train_loss'' \<mapsto> a @ [fst lm], ''train_acc'' \<mapsto> b @ [snd lm],
             ''test_loss'' \<mapsto> c @ [fst lm'], ''test_acc'' \<mapsto> d @ [snd lm']))"
    using assms(4,5) by (simp add: record_metrics_ok)
  show ?thesis
    using assms(1) unfolding epoch_body_def r1
    by (auto simp: r2 split: prod.splits sum.splits)
qed

lemma epoch_body_success_state:
  assumes "epoch_body fw tr te n st h k = (lg, st', Inr h')"
  shows "st' = ((fst (fst (snd (train_phase fw tr st))))\<lparr>training := False\<rparr>,
               snd (fst (snd (train_phase fw tr st))))"
proof -
  have e: "\<And>m1. fst (snd (eval_phase fw te m1)) = m1\<lparr>training := False\<rparr>"
    by (rule eval_phase_model)
  show ?thesis
    using assms e [of "fst (fst (snd (train_phase fw tr st)))"]
    unfolding epoch_body_def
    by (auto split: prod.splits sum.splits)
qed

lemma epochs_loop_invariant:
  assumes "epochs_loop fw tr te n st h ks = (lg, st', Inr h')"
    and "I j h"
    and step: "\<And>i st h k lg st' h'. I i h \<Longrightarrow>
                 epoch_body fw tr te n st h k = (lg, st', Inr h') \<Longrightarrow> I (Suc i) h'"
  shows "I (j + length ks) h'"
  using assms(1,2)
proof (induction ks arbitrary: st h lg j)
  case Nil
  then show ?case by simp
next
  case (Cons k ks)
  obtain lg1 st1 r1 where b: "epoch_body fw tr te n st h k = (lg1, st1, r1)"
    by (metis prod_cases3)
  show ?case
  proof (cases r1)
    case (Inl e)
    with b Cons.prems(1) show ?thesis by simp
  next
    case (Inr h1)
    obtain lg2 st2 r2 where l: "epochs_loop fw tr te n st1 h1 ks = (lg2, st2, r2)"
      by (metis prod_cases3)
    from b Inr l Cons.prems(1)
    have l': "epochs_loop fw tr te n st1 h1 ks = (lg2, st', Inr h')" by simp
    have "I (Suc j) h1" using step [OF Cons.prems(2)] b Inr by simp
    from Cons.IH [OF l' this] show ?thesis by simp
  qed
qed

lemma hist_shape_init: "hist_shape 0 init_history"
  by (auto simp: hist_shape_def init_history_def hist_keys_def)

lemma hist_shape_step:
  assumes "hist_shape i h" and "epoch_body fw tr te n st h k = (lg, st', Inr h')"
  shows "hist_shape (Suc i) h'"
proof -
  from assms(1) obtain a b c d where
    k: "h ''train_loss'' = Some a" "h ''train_acc'' = Some b"
       "h ''test_loss'' = Some c" "h ''test_acc'' = Some d"
    and len: "length a = i" "length b = i" "length c = i" "length d = i"
    by (auto simp: hist_shape_def)
  from epoch_body_success [OF assms(2) k] obtain trm tem where
    h': "h' = h(''train_loss'' \<mapsto> a @ [fst trm], ''train_acc'' \<mapsto> b @ [snd trm],
               ''test_loss'' \<mapsto> c @ [fst tem], ''test_acc'' \<mapsto> d @ [snd tem])"
    by blast
  have d: "dom h' = dom h" unfolding h' using k by auto
  show ?thesis
    using assms(1) len d unfolding hist_shape_def by (simp add: h')
qed

lemma train_success_shape:
  assumes "train fw m tr te n = (lg, m', Some h)"
  shows "hist_shape (nat n) h"
proof -
  from assms obtain st' where
    l: "epochs_loop fw tr te n (m, adam fw (params m)) init_history (py_range n) = (lg, st', Inr h)"
    by (auto simp: train_def split: prod.splits sum.splits)
  have "hist_shape (0 + length (py_range n)) h"
    by (rule epochs_loop_invariant [where I = hist_shape, OF l hist_shape_init])
       (rule hist_shape_step)
  then show ?thesis by (simp add: py_range_def)
qed

subsection \<open>The running totals are the sums of the contributions\<close>

lemmas count_defs = loss_sum_def correct_count_def total_count_def

lemma train_batches_Cons_cases:
  "(\<exists>e. train_batches fw (m, q) (l, c, t) (b # bs) = ([], (m, q), Inl e))
   \<or> (anomalous fw m b \<and> train_contribs fw (m, q) (b # bs) = train_contribs fw (m, q) bs)
   \<or> (\<exists>x y z p' q'.
         train_batches fw (m, q) (l, c, t) (b # bs)
           = train_batches fw (m\<lparr>params := p'\<rparr>, q') (l + x, c + y, t + z) bs
       \<and> train_contribs fw (m, q) (b # bs)
           = (x, y, z) # train_contribs fw (m\<lparr>params := p'\<rparr>, q') bs)"
  by (auto simp: anomalous_def split: sum.splits option.splits)

lemma train_batches_sums:
  "train_batches fw st (l, c, t) bs = (lg, st', Inr (l', c', t')) \<Longrightarrow>
     l' = l + loss_sum (train_contribs fw st bs)
   \<and> c' = c + correct_count (train_contribs fw st bs)
   \<and> t' = t + total_count (train_contribs fw st bs)"
proof (induction bs arbitrary: st l c t lg)
  case Nil
  then show ?case by (simp add: count_defs)
next
  case (Cons b bs)
  obtain m q where st: "st = (m, q)" by (cases st)
  from train_batches_Cons_cases [of fw m q l c t b bs]
  consider
    (raise) e where "train_batches fw (m, q) (l, c, t) (b # bs) = ([], (m, q), Inl e)"
  | (skip) "anomalous fw m b"
      "train_contribs fw (m, q) (b # bs) = train_contribs fw (m, q) bs"
  | (step) x y z p' q' where
      "train_batches fw (m, q) (l, c, t) (b # bs)
         = train_batches fw (m\<lparr>params := p'\<rparr>, q') (l + x, c + y, t + z) bs"
      "train_contribs fw (m, q) (b # bs)
         = (x, y, z) # train_contribs fw (m\<lparr>params := p'\<rparr>, q') bs"
    by blast
  then show ?case
  proof cases
    case raise
    with Cons.prems st show ?thesis by simp
  next
    case skip
    from train_batches_skip [OF skip(1), of q "(l, c, t)" bs] Cons.prems st
    obtain lg' where "train_batches fw (m, q) (l, c, t) bs = (lg', st', Inr (l', c', t'))"
      by (auto simp: printed_eq_iff)
    from Cons.IH [OF this] show ?thesis
      unfolding st skip(2) .
  next
    case step
    from Cons.prems st step(1)
    have "train_batches fw (m\<lparr>params := p'\<rparr>, q') (l + x, c + y, t + z) bs
            = (lg, st', Inr (l', c', t'))" by simp
    from Cons.IH [OF this] show ?thesis
      unfolding st step(2) by (simp add: count_defs)
  qed
qed

lemma eval_contrib_Some:
  "eval_contrib fw m b = Some (x, y, z) \<Longrightarrow>
     eval_batches fw m (l, c, t) (b # bs) = eval_batches fw m (l + x, c + y, t + z) bs"
  by (auto simp: eval_contrib_def split: sum.splits option.splits)

lemma eval_contrib_None:
  "eval_contrib fw m b = None \<Longrightarrow>
     anomalous fw m b \<or> (\<exists>e. eval_batches fw m (l, c, t) (b # bs) = ([], m, Inl e))"
  by (auto simp: eval_contrib_def anomalous_def split: sum.splits option.splits)

lemma eval_batches_sums:
  "eval_batches fw m (l, c, t) bs = (lg, m', Inr (l', c', t')) \<Longrightarrow>
     l' = l + loss_sum (List.map_filter (eval_contrib fw m) bs)
   \<and> c' = c + correct_count (List.map_filter (eval_contrib fw m) bs)
   \<and> t' = t + total_count (List.map_filter (eval_contrib fw m) bs)"
proof (induction bs arbitrary: l c t lg)
  case Nil
  then show ?case by (simp add: count_defs List.map_filter_simps)
next
  case (Cons b bs)
  show ?case
  proof (cases "eval_contrib fw m b")
    case None
    with eval_contrib_None [of fw m b l c t bs] Cons.prems have "anomalous fw m b"
      by auto
    from eval_batches_skip [OF this, of "(l, c, t)" bs] Cons.prems
    obtain lg' where "eval_batches fw m (l, c, t) bs = (lg', m', Inr (l', c', t'))"
      by (auto simp: printed_eq_iff)
    from Cons.IH [OF this] show ?thesis
      using None by (simp add: List.map_filter_simps)
  next
    case (Some xyz)
    obtain x y z where xyz: "xyz = (x, y, z)" by (cases xyz)
    from Cons.prems have "eval_batches fw m (l + x, c + y, t + z) bs = (lg, m', Inr (l', c', t'))"
      using eval_contrib_Some [OF Some [unfolded xyz]] by simp
    from Cons.IH [OF this] show ?thesis
      using Some xyz by (simp add: List.map_filter_simps count_defs)
  qed
qed

lemma metrics_Inr:
  "metrics n (l, c, t) = Inr lm \<Longrightarrow>
     n \<noteq> 0 \<and> t \<noteq> 0 \<and> fst lm = l / real n \<and> snd lm = 100 * real c / real t"
  by (auto simp: metrics_def py_div_def split: if_splits)

lemma train_phase_Inr:
  assumes "snd (snd (train_phase fw tr (m, q))) = Inr lm"
  shows "fst lm = loss_sum (train_contribs fw (m\<lparr>training := True\<rparr>, q) (batches tr))
                    / real (dataset_len tr)
       \<and> snd lm = 100 * real (correct_count (train_contribs fw (m\<lparr>training := True\<rparr>, q) (batches tr)))
                    / real (total_count (train_contribs fw (m\<lparr>training := True\<rparr>, q) (batches tr)))
       \<and> dataset_len tr \<noteq> 0
       \<and> total_count (train_contribs fw (m\<lparr>training := True\<rparr>, q) (batches tr)) \<noteq> 0"
proof -
  obtain lg st' r where
    b: "train_batches fw (m\<lparr>training := True\<rparr>, q) (0, 0, 0) (batches tr) = (lg, st', r)"
    by (metis prod_cases3)
  with assms obtain l c t where r: "r = Inr (l, c, t)" and mt: "metrics (dataset_len tr) (l, c, t) = Inr lm"
    by (cases r) (auto simp: train_phase_def)
  from train_batches_sums [OF b [unfolded r]] metrics_Inr [OF mt]
  show ?thesis by simp
qed

lemma eval_phase_Inr:
  assumes "snd (snd (eval_phase fw te m)) = Inr lm"
  shows "fst lm = loss_sum (List.map_filter (eval_contrib fw (m\<lparr>training := False\<rparr>)) (batches te))
                    / real (dataset_len te)
       \<and> snd lm = 100 * real (correct_count (List.map_filter (eval_contrib fw (m\<lparr>training := False\<rparr>)) (batches te)))
                    / real (total_count (List.map_filter (eval_contrib fw (m\<lparr>training := False\<rparr>)) (batches te)))
       \<and> dataset_len te \<noteq> 0
       \<and> total_count (List.map_filter (eval_contrib fw (m\<lparr>training := False\<rparr>)) (batches te)) \<noteq> 0"
proof -
  obtain lg m' r where
    b: "eval_batches fw (m\<lparr>training := False\<rparr>) (0, 0, 0) (batches te) = (lg, m', r)"
    by (metis prod_cases3)
  with assms obtain l c t where r: "r = Inr (l, c, t)" and mt: "metrics (dataset_len te) (l, c, t) = Inr lm"
    by (cases r) (auto simp: eval_phase_def)
  from eval_batches_sums [OF b [unfolded r]] metrics_Inr [OF mt]
  show ?thesis by simp
qed

subsection \<open>Bounds on the metrics\<close>










subsection \<open>A raise in an epoch ends the run\<close>












subsection \<open>Runs of the small framework\<close>

lemmas demo_defs = demo_fw_def demo_model_def good_loader_def failing_loader_def skipped_loader_def
  train_phase_def eval_phase_def epoch_body_def metrics_def py_div_def record_metrics_def
  hist_append_def init_history_def


lemma demo_epoch_one:
  "epoch_body demo_fw good_loader good_loader 2 (demo_model, 0) init_history 0 =
     ([Warning ''Warning: Model output is None.'',
       Warning ''Warning: Loss computation returned None.'',
       Warning ''Warning: Model output is None during evaluation.'',
       Warning ''Warning: Loss computation returned None during evaluation.'',
       Progress 1 2 (1 / 4) 50 (1 / 4) 50],
      (\<lparr>params = 2, training = False\<rparr>, 2),
      Inr (init_history(''train_loss'' \<mapsto> [1 / 4], ''train_acc'' \<mapsto> [50],
                        ''test_loss'' \<mapsto> [1 / 4], ''test_acc'' \<mapsto> [50])))"
  by (simp add: demo_defs)

lemma demo_run_two:
  "train demo_fw demo_model good_loader good_loader 2 =
     ([Warning ''Warning: Model output is None.'',
       Warning ''Warning: Loss computation returned None.'',
       Warning ''Warning: Model output is None during evaluation.'',
       Warning ''Warning: Loss computation returned None during evaluation.'',
       Progress 1 2 (1 / 4) 50 (1 / 4) 50,
       Warning ''Warning: Model output is None.'',
       Warning ''Warning: Loss computation returned None.'',
       Warning ''Warning: Model output is None during evaluation.'',
       Warning ''Warning: Loss computation returned None during evaluation.'',
       Progress 2 2 (1 / 4) 50 (1 / 4) 50],
      \<lparr>params = 4, training = False\<rparr>,
      Some (init_history(''train_loss'' \<mapsto> [1 / 4, 1 / 4], ''train_acc'' \<mapsto> [50, 50],
                         ''test_loss'' \<mapsto> [1 / 4, 1 / 4], ''test_acc'' \<mapsto> [50, 50])))"
  by (simp add: train_def py_range_def demo_defs upt_rec)

section \<open>The properties\<close>

subsection \<open>Failures\<close>




text \<open>
  C2. In either phase, a batch on which the forward pass or the criterion returns \<^verbatim>\<open>None\<close>
  is skipped: after any batches \<open>xs\<close> that were processed without an exception, the loop
  prints one warning for the batch and goes on with the batches \<open>ys\<close> that follow, from
  the state and with the running loss sum, correct count and example count it had before
  the batch. (With \<open>ys\<close> empty: the loop ends with these unchanged.)
\<close>

theorem anomalous_batch_skipped:
  "(train_batches fw st acc xs = (lg, (m, q), Inr acc') \<and> anomalous fw m b \<longrightarrow>
      train_batches fw st acc (xs @ b # ys) =
        (case train_batches fw (m, q) acc' ys of
           (lg', st', r) \<Rightarrow> (lg @ train_warning fw m b # lg', st', r)))
   \<and> (eval_batches fw em eacc exs = (elg, em, Inr eacc') \<and> anomalous fw em eb \<longrightarrow>
      eval_batches fw em eacc (exs @ eb # eys) =
        (case eval_batches fw em eacc' eys of
           (lg', m', r) \<Rightarrow> (elg @ eval_warning fw em eb # lg', m', r)))"
  by (auto simp: train_batches_append eval_batches_append train_batches_skip eval_batches_skip
      printed_def split: prod.splits)

theorem anomalous_batch_skipped_witness:
  "train_batches demo_fw (\<lparr>params = 0, training = True\<rparr>, 0) (0, 0, 0) [3]
     = ([], (\<lparr>params = 1, training = True\<rparr>, 1), Inr (1 / 2, 1, 2))
   \<and> anomalous demo_fw \<lparr>params = 1, training = True\<rparr> 0
   \<and> train_batches demo_fw (\<lparr>params = 0, training = True\<rparr>, 0) (0, 0, 0) ([3] @ 0 # [1, 3])
     = ([Warning ''Warning: Model output is None.'',
         Warning ''Warning: Loss computation returned None.''],
        (\<lparr>params = 2, training = True\<rparr>, 2), Inr (1, 2, 4))
   \<and> eval_batches demo_fw \<lparr>params = 0, training = False\<rparr> (0, 0, 0) [3]
     = ([], \<lparr>params = 0, training = False\<rparr>, Inr (1 / 2, 1, 2))
   \<and> anomalous demo_fw \<lparr>params = 0, training = False\<rparr> 1
   \<and> eval_batches demo_fw \<lparr>params = 0, training = False\<rparr> (0, 0, 0) ([3] @ 1 # [3])
     = ([Warning ''Warning: Loss computation returned None during evaluation.''],
        \<lparr>params = 0, training = False\<rparr>, Inr (1, 2, 4))"
proof -
  have t: "train_batches demo_fw (\<lparr>params = 0, training = True\<rparr>, 0) (0, 0, 0) [3]
             = ([], (\<lparr>params = 1, training = True\<rparr>, 1), Inr (1 / 2, 1, 2))"
    by (simp add: demo_fw_def)
  have ta: "anomalous demo_fw \<lparr>params = 1, training = True\<rparr> 0"
    by (simp add: anomalous_def demo_fw_def)
  have e: "eval_batches demo_fw \<lparr>params = 0, training = False\<rparr> (0, 0, 0) [3]
             = ([], \<lparr>params = 0, training = False\<rparr>, Inr (1 / 2, 1, 2))"
    by (simp add: demo_fw_def)
  have ea: "anomalous demo_fw \<lparr>params = 0, training = False\<rparr> 1"
    by (simp add: anomalous_def demo_fw_def)
  have rest: "train_batches demo_fw (\<lparr>params = 1, training = True\<rparr>, 1) (1 / 2, 1, 2) [1, 3]
             = ([Warning ''Warning: Loss computation returned None.''],
                (\<lparr>params = 2, training = True\<rparr>, 2), Inr (1, 2, 4))"
    "eval_batches demo_fw \<lparr>params = 0, training = False\<rparr> (1 / 2, 1, 2) [3]
             = ([], \<lparr>params = 0, training = False\<rparr>, Inr (1, 2, 4))"
    "train_warning demo_fw \<lparr>params = 1, training = True\<rparr> 0
             = Warning ''Warning: Model output is None.''"
    "eval_warning demo_fw \<lparr>params = 0, training = False\<rparr> 1
             = Warning ''Warning: Loss computation returned None during evaluation.''"
    by (simp_all add: demo_fw_def train_warning_def eval_warning_def)
  from anomalous_batch_skipped
    [of demo_fw "(\<lparr>params = 0, training = True\<rparr>, 0)" "(0, 0, 0)" "[3]" "[]"
        "\<lparr>params = 1, training = True\<rparr>" 1 "(1 / 2, 1, 2)" 0 "[1, 3]"
        "\<lparr>params = 0, training = False\<rparr>" "(0, 0, 0)" "[3]" "[]" "(1 / 2, 1, 2)" 1 "[3]"]
    t ta e ea
  have "train_batches demo_fw (\<lparr>params = 0, training = True\<rparr>, 0) (0, 0, 0) ([3] @ 0 # [1, 3])
          = (case train_batches demo_fw (\<lparr>params = 1, training = True\<rparr>, 1) (1 / 2, 1, 2) [1, 3] of
               (lg', st', r) \<Rightarrow>
                 ([] @ train_warning demo_fw \<lparr>params = 1, training = True\<rparr> 0 # lg', st', r))"
    and "eval_batches demo_fw \<lparr>params = 0, training = False\<rparr> (0, 0, 0) ([3] @ 1 # [3])
          = (case eval_batches demo_fw \<lparr>params = 0, training = False\<rparr> (1 / 2, 1, 2) [3] of
               (lg', m', r) \<Rightarrow>
                 ([] @ eval_warning demo_fw \<lparr>params = 0, training = False\<rparr> 1 # lg', m', r))"
    by blast+
  then show ?thesis
    unfolding rest using t ta e ea by simp
qed

text \<open>
  C5, as amended. If every batch of the training partition is skipped in some epoch,
  the running totals stay zero and the derivation of the epoch's metrics raises
  \<^verbatim>\<open>ZeroDivisionError\<close>: no test guards the denominators. The exception does not leave
  \<^verbatim>\<open>train\<close>: the handler for all exceptions prints its line after the warnings of the
  skipped batches and \<^verbatim>\<open>train\<close> returns \<^verbatim>\<open>None\<close>, which ends the run without a history.
\<close>

theorem all_batches_skipped_caught:
  assumes "k < nat n"
    and "epochs_loop fw tr te n (m, adam fw (params m)) init_history [0..<k]
           = (lg0, (m0, q0), Inr h0)"
    and "\<forall>b \<in> set (batches tr). anomalous fw (m0\<lparr>training := True\<rparr>) b"
  shows "train_batches fw (m0\<lparr>training := True\<rparr>, q0) (0, 0, 0) (batches tr) =
           (map (train_warning fw (m0\<lparr>training := True\<rparr>)) (batches tr),
            (m0\<lparr>training := True\<rparr>, q0), Inr (0, 0, 0))
       \<and> metrics (dataset_len tr) (0, 0, 0) = Inl ZeroDivisionError
       \<and> train fw m tr te n =
           (lg0 @ map (train_warning fw (m0\<lparr>training := True\<rparr>)) (batches tr)
              @ [ErrorLine ZeroDivisionError],
            m0\<lparr>training := True\<rparr>, None)"
proof -
  have body: "epoch_body fw tr te n (m0, q0) h0 k =
      (map (train_warning fw (m0\<lparr>training := True\<rparr>)) (batches tr),
       (m0\<lparr>training := True\<rparr>, q0), Inl ZeroDivisionError)"
    by (simp add: epoch_body_def train_phase_all_skipped [OF assms(3)])
  have split: "py_range n = [0..<k] @ k # [Suc k..<nat n]"
    using assms(1) unfolding py_range_def by (rule upt_split_at)
  have "train fw m tr te n =
           (lg0 @ map (train_warning fw (m0\<lparr>training := True\<rparr>)) (batches tr)
              @ [ErrorLine ZeroDivisionError],
            m0\<lparr>training := True\<rparr>, None)"
    unfolding train_def split epochs_loop_append
    using assms(2) body by simp
  then show ?thesis
    by (simp add: train_batches_all_skipped [OF assms(3)] metrics_zero)
qed

theorem all_batches_skipped_caught_witness:
  "anomalous demo_fw (demo_model\<lparr>training := True\<rparr>) 0
   \<and> anomalous demo_fw (demo_model\<lparr>training := True\<rparr>) 1
   \<and> batches skipped_loader = [0, 1]
   \<and> metrics (dataset_len skipped_loader) (0, 0, 0) = Inl ZeroDivisionError
   \<and> train demo_fw demo_model skipped_loader good_loader 2 =
       ([Warning ''Warning: Model output is None.'',
         Warning ''Warning: Loss computation returned None.'',
         ErrorLine ZeroDivisionError],
        \<lparr>params = 0, training = True\<rparr>, None)"
proof -
  have a: "(0::nat) < nat 2" by simp
  have b: "epochs_loop demo_fw skipped_loader good_loader 2
             (demo_model, adam demo_fw (params demo_model)) init_history [0..<0]
           = ([], (demo_model, 0), Inr init_history)"
    by (simp add: demo_fw_def)
  have s: "anomalous demo_fw (demo_model\<lparr>training := True\<rparr>) 0"
    "anomalous demo_fw (demo_model\<lparr>training := True\<rparr>) 1"
    "batches skipped_loader = [0, 1]"
    by (simp_all add: skipped_loader_def anomalous_def demo_fw_def demo_model_def)
  have c: "\<forall>b \<in> set (batches skipped_loader). anomalous demo_fw (demo_model\<lparr>training := True\<rparr>) b"
    using s by simp
  show ?thesis
    using all_batches_skipped_caught [OF a b c] s
    by (simp add: train_warning_def demo_fw_def demo_model_def)
qed

text \<open>
  The zero denominator is not handled where it arises: with both training batches
  skipped the totals are zero, the derivation of the metrics raises, and the run ends
  without a result.
\<close>

theorem zero_denominator_counterexample:
  "train_batches demo_fw (demo_model\<lparr>training := True\<rparr>, 0) (0, 0, 0) (batches skipped_loader) =
     ([Warning ''Warning: Model output is None.'',
       Warning ''Warning: Loss computation returned None.''],
      (\<lparr>params = 0, training = True\<rparr>, 0), Inr (0, 0, 0))
   \<and> metrics (dataset_len skipped_loader) (0, 0, 0) = Inl ZeroDivisionError
   \<and> snd (snd (train_phase demo_fw skipped_loader (demo_model, 0))) = Inl ZeroDivisionError
   \<and> snd (snd (train demo_fw demo_model skipped_loader good_loader 2)) = None"
  by (simp add: train_def py_range_def demo_defs upt_rec)

subsection \<open>The history of a successful run\<close>

text \<open>
  C3, as amended. For every epoch count \<open>n \<ge> 0\<close>, the history returned by a successful
  run has exactly \<open>n\<close> entries, one per completed epoch, in each of the four metric
  sequences \<^verbatim>\<open>train_loss\<close>, \<^verbatim>\<open>train_acc\<close>, \<^verbatim>\<open>test_loss\<close> and \<^verbatim>\<open>test_acc\<close>; its two other
  sequences, \<^verbatim>\<open>val_acc\<close> and \<^verbatim>\<open>val_loss\<close>, have no entry.
\<close>

theorem history_lengths:
  assumes "0 \<le> n" and "train fw m tr te n = (lg, m', Some h)"
  shows "map_option (\<lambda>xs. int (length xs)) (h ''train_loss'') = Some n
       \<and> map_option (\<lambda>xs. int (length xs)) (h ''train_acc'') = Some n
       \<and> map_option (\<lambda>xs. int (length xs)) (h ''test_loss'') = Some n
       \<and> map_option (\<lambda>xs. int (length xs)) (h ''test_acc'') = Some n
       \<and> map_option (\<lambda>xs. int (length xs)) (h ''val_acc'') = Some 0
       \<and> map_option (\<lambda>xs. int (length xs)) (h ''val_loss'') = Some 0"
  using train_success_shape [OF assms(2)] assms(1)
  by (auto simp: hist_shape_def)

theorem history_lengths_witness:
  "(0::int) \<le> 2
   \<and> (\<exists>lg m' h. train demo_fw demo_model good_loader good_loader 2 = (lg, m', Some h)
        \<and> map_option (\<lambda>xs. int (length xs)) (h ''train_loss'') = Some 2
        \<and> map_option (\<lambda>xs. int (length xs)) (h ''train_acc'') = Some 2
        \<and> map_option (\<lambda>xs. int (length xs)) (h ''test_loss'') = Some 2
        \<and> map_option (\<lambda>xs. int (length xs)) (h ''test_acc'') = Some 2
        \<and> map_option (\<lambda>xs. int (length xs)) (h ''val_acc'') = Some 0
        \<and> map_option (\<lambda>xs. int (length xs)) (h ''val_loss'') = Some 0)"
proof -
  have a: "(0::int) \<le> 2" by simp
  show ?thesis
    using history_lengths [OF a demo_run_two] a demo_run_two by blast
qed

text \<open>
  The property does not extend to every sequence of the history: after one completed
  epoch \<^verbatim>\<open>val_acc\<close> is a sequence of the returned history and it is empty.
\<close>

theorem every_sequence_length_counterexample:
  "snd (snd (train demo_fw demo_model good_loader good_loader 1)) \<noteq> None
   \<and> ''val_acc'' \<in> dom (the (snd (snd (train demo_fw demo_model good_loader good_loader 1))))
   \<and> length (the (the (snd (snd (train demo_fw demo_model good_loader good_loader 1)))
                    ''val_acc'')) \<noteq> 1"
  by (simp add: train_def py_range_def demo_defs)

text \<open>
  C9. The history returned by a successful run has exactly six keys, among them
  \<^verbatim>\<open>val_acc\<close> and \<^verbatim>\<open>val_loss\<close>, and the sequences under these two keys are empty whatever
  the number of epochs.
\<close>

theorem history_six_keys:
  assumes "train fw m tr te n = (lg, m', Some h)"
  shows "dom h = {''train_loss'', ''train_acc'', ''test_loss'', ''test_acc'',
                  ''val_acc'', ''val_loss''}
       \<and> card (dom h) = 6 \<and> h ''val_acc'' = Some [] \<and> h ''val_loss'' = Some []"
proof -
  have "card hist_keys = 6" by (simp add: hist_keys_def)
  then show ?thesis
    using train_success_shape [OF assms] by (simp add: hist_shape_def hist_keys_def)
qed

theorem history_six_keys_witness:
  "\<exists>lg m' h. train demo_fw demo_model good_loader good_loader 2 = (lg, m', Some h)
     \<and> card (dom h) = 6 \<and> h ''val_acc'' = Some [] \<and> h ''val_loss'' = Some []
     \<and> map_option length (h ''train_loss'') = Some 2"
proof -
  define H where
    "H = init_history(''train_loss'' \<mapsto> [1 / 4, 1 / 4], ''train_acc'' \<mapsto> [50, 50],
                      ''test_loss'' \<mapsto> [1 / 4, 1 / 4], ''test_acc'' \<mapsto> [50, 50 :: real])"
  have l: "map_option length (H ''train_loss'') = Some 2"
    by (simp add: H_def)
  from history_six_keys [OF demo_run_two, folded H_def]
  have "card (dom H) = 6 \<and> H ''val_acc'' = Some [] \<and> H ''val_loss'' = Some []"
    by (rule conjunct2)
  with l demo_run_two [folded H_def] show ?thesis
    by blast
qed

text \<open>
  C4. For a completed epoch, the training loss appended to the history is the sum of
  the losses of the training batches that contributed divided by
  \<^verbatim>\<open>len(train_loader.dataset)\<close>, and the training accuracy appended is their count of
  correct predictions divided by their count of examples, times 100; the evaluation
  metrics are derived in the same way from the evaluation partition, on the model the
  training phase left. None of the four denominators is zero.
\<close>

theorem epoch_metrics_derived:
  assumes "epoch_body fw tr te n (m, q) h k = (lg, (m', q'), Inr h')"
    and "h ''train_loss'' = Some a" and "h ''train_acc'' = Some b"
    and "h ''test_loss'' = Some c" and "h ''test_acc'' = Some d"
  shows "let trc = train_contribs fw (m\<lparr>training := True\<rparr>, q) (batches tr);
             tec = List.map_filter (eval_contrib fw m') (batches te)
         in h' ''train_loss'' = Some (a @ [loss_sum trc / real (dataset_len tr)])
          \<and> h' ''train_acc'' = Some (b @ [real (correct_count trc) / real (total_count trc) * 100])
          \<and> h' ''test_loss'' = Some (c @ [loss_sum tec / real (dataset_len te)])
          \<and> h' ''test_acc'' = Some (d @ [real (correct_count tec) / real (total_count tec) * 100])
          \<and> dataset_len tr \<noteq> 0 \<and> total_count trc \<noteq> 0
          \<and> dataset_len te \<noteq> 0 \<and> total_count tec \<noteq> 0"
proof -
  define m1 where "m1 = fst (fst (snd (train_phase fw tr (m, q))))"
  from epoch_body_success [OF assms] obtain trm tem where
    t: "snd (snd (train_phase fw tr (m, q))) = Inr trm"
    and e: "snd (snd (eval_phase fw te m1)) = Inr tem"
    and h': "h' = h(''train_loss'' \<mapsto> a @ [fst trm], ''train_acc'' \<mapsto> b @ [snd trm],
                    ''test_loss'' \<mapsto> c @ [fst tem], ''test_acc'' \<mapsto> d @ [snd tem])"
    unfolding m1_def by blast
  from epoch_body_success_state [OF assms(1)] have m': "m' = m1\<lparr>training := False\<rparr>"
    by (simp add: m1_def)
  note tp = train_phase_Inr [OF t]
  note ep = eval_phase_Inr [OF e, folded m']
  show ?thesis
    unfolding Let_def h' using tp ep by simp
qed

text \<open>The first epoch on the small framework: two of four batches contribute to each
  phase, with loss sum 1 over 4 examples of the dataset, and 2 correct of 4 examples.\<close>

theorem epoch_metrics_derived_witness:
  "loss_sum (train_contribs demo_fw (demo_model\<lparr>training := True\<rparr>, 0) (batches good_loader)) = 1
   \<and> correct_count (train_contribs demo_fw (demo_model\<lparr>training := True\<rparr>, 0) (batches good_loader)) = 2
   \<and> total_count (train_contribs demo_fw (demo_model\<lparr>training := True\<rparr>, 0) (batches good_loader)) = 4
   \<and> (\<exists>lg st' h'. epoch_body demo_fw good_loader good_loader 2 (demo_model, 0) init_history 0
           = (lg, st', Inr h')
        \<and> h' ''train_loss'' = Some [1 / 4] \<and> h' ''train_acc'' = Some [50]
        \<and> h' ''test_loss'' = Some [1 / 4] \<and> h' ''test_acc'' = Some [50])"
proof -
  have k: "init_history ''train_loss'' = Some []" "init_history ''train_acc'' = Some []"
    "init_history ''test_loss'' = Some []" "init_history ''test_acc'' = Some []"
    by (simp_all add: init_history_def)
  have s: "loss_sum (train_contribs demo_fw (demo_model\<lparr>training := True\<rparr>, 0) (batches good_loader)) = 1"
    "correct_count (train_contribs demo_fw (demo_model\<lparr>training := True\<rparr>, 0) (batches good_loader)) = 2"
    "total_count (train_contribs demo_fw (demo_model\<lparr>training := True\<rparr>, 0) (batches good_loader)) = 4"
    "loss_sum (List.map_filter (eval_contrib demo_fw \<lparr>params = 2, training = False\<rparr>) (batches good_loader)) = 1"
    "correct_count (List.map_filter (eval_contrib demo_fw \<lparr>params = 2, training = False\<rparr>) (batches good_loader)) = 2"
    "total_count (List.map_filter (eval_contrib demo_fw \<lparr>params = 2, training = False\<rparr>) (batches good_loader)) = 4"
    "dataset_len good_loader = 4"
    by (simp_all add: count_defs demo_fw_def demo_model_def good_loader_def eval_contrib_def
        List.map_filter_simps)
  from epoch_metrics_derived [OF demo_epoch_one k]
  have "(init_history(''train_loss'' \<mapsto> [1 / 4], ''train_acc'' \<mapsto> [50],
                      ''test_loss'' \<mapsto> [1 / 4], ''test_acc'' \<mapsto> [50])) ''train_loss''
          = Some ([] @ [1 / real (4::nat)])"
    unfolding Let_def s by simp
  then show ?thesis
    using s(1-3) demo_epoch_one by simp
qed




subsection \<open>The evaluation phase\<close>

text \<open>
  C6. The evaluation phase leaves the parameters of the model as they were: it calls
  the forward pass and the criterion only, never the optimizer. Run a second time on the
  model it left, over the same data, it prints the same lines and ends in the same way,
  with the same loss and accuracy. (The forward pass is a function of the parameters, the
  mode and the batch: a model whose forward pass writes to its own parameters is not
  represented.)
\<close>

theorem eval_phase_frame:
  "params (fst (snd (eval_phase fw te m))) = params m
   \<and> eval_phase fw te (fst (snd (eval_phase fw te m))) = eval_phase fw te m"
  by (simp add: eval_phase_model) (simp add: eval_phase_def)

subsection \<open>Epoch counts without epochs\<close>

text \<open>
  C8. A call of \<^verbatim>\<open>train\<close> with \<^verbatim>\<open>epochs=0\<close> prints nothing and returns a history in which
  the four metric sequences (and the two other sequences) are empty.
\<close>

theorem train_zero_epochs:
  "train fw m train_loader test_loader 0 = ([], m, Some init_history)
   \<and> init_history ''train_loss'' = Some [] \<and> init_history ''train_acc'' = Some []
   \<and> init_history ''test_loss'' = Some [] \<and> init_history ''test_acc'' = Some []
   \<and> init_history ''val_acc'' = Some [] \<and> init_history ''val_loss'' = Some []"
  by (simp add: train_def py_range_def init_history_def)

text \<open>
  C10. For a negative \<^verbatim>\<open>epochs\<close>, \<^verbatim>\<open>train\<close> does what it does for \<^verbatim>\<open>epochs=0\<close>: no epoch
  runs, nothing is printed, no error is reported, and the history returned has all its
  sequences empty.
\<close>

theorem train_negative_epochs:
  assumes "n < 0"
  shows "train fw m tr te n = train fw m tr te 0
       \<and> train fw m tr te n = ([], m, Some init_history)
       \<and> (\<forall>k \<in> dom init_history. init_history k = Some [])"
  using assms by (auto simp: train_def py_range_def init_history_def split: if_splits)

theorem train_negative_epochs_witness:
  "(-3::int) < 0
   \<and> train demo_fw demo_model failing_loader skipped_loader (-3)
       = train demo_fw demo_model failing_loader skipped_loader 0
   \<and> train demo_fw demo_model failing_loader skipped_loader (-3)
       = ([], demo_model, Some init_history)"
proof -
  have a: "(-3::int) < 0" by simp
  show ?thesis
    using train_negative_epochs [OF a, of demo_fw demo_model failing_loader skipped_loader] a
    by blast
qed

end
